theory Spec2Isabelle
  imports Main "HOL-Library.Sublist"
begin

section \<open>Errors, configuration and directory entries\<close>

text \<open>
  A Go \<open>error\<close> value. \<open>New\<close> is an error made by \<open>errors.New\<close> or an opaque error of a
  library, \<open>Aws\<close> is an \<open>awserr.Error\<close> with its code and message, and \<open>Errorf\<close> is
  \<open>fmt.Errorf\<close> with a rendered prefix and the error wrapped by \<open>%w\<close>. A function that
  returns \<open>error\<close> returns \<open>error option\<close> here, \<open>None\<close> being \<open>nil\<close>.
\<close>

datatype error = New string | Aws string string | Errorf string error

text \<open>The struct \<open>SSHServer\<close> of \<open>pkg/destinations/ssh/ssh.go\<close> (lines 14-20).\<close>

record SSHServer =
  PrivateKey :: string
  User :: string
  Host :: string
  Port :: string
  Directory :: string

text \<open>What the code reads of an \<open>os.FileInfo\<close>: \<open>Name()\<close> and \<open>IsDir()\<close>.\<close>

record file_info =
  Name :: string
  IsDir :: bool

section \<open>Ingestion through the SSH destination\<close>

text \<open>\<open>InsertBatchFromNDJson\<close> (lines 22-24): the reader is never touched.\<close>

definition InsertBatchFromNDJson :: "SSHServer \<Rightarrow> 'r \<Rightarrow> error option" where
  "InsertBatchFromNDJson s input = Some (New ''Not implemented for ssh'')"

section \<open>The query rewriter inside queryDuckDB\<close>

text \<open>
  Lines 81 and 87-91 of \<open>queryDuckDB\<close>: \<open>tables\<close> starts empty and the loop over the listing
  appends the name of every entry that is a directory.
\<close>

fun collect_tables :: "file_info list \<Rightarrow> string list \<Rightarrow> string list" where
  "collect_tables [] tables = tables"
| "collect_tables (file # files) tables =
     collect_tables files (if IsDir file then tables @ [Name file] else tables)"

definition queryDuckDB_tables :: "file_info list \<Rightarrow> string list" where
  "queryDuckDB_tables files = collect_tables files []"

text \<open>
  Line 100: the \<open>fmt.Sprintf\<close> that renders one relation clause from the table name, the
  configured directory and the table name again. \<open>CHR 0x22\<close> is the double quote and
  \<open>CHR 0x27\<close> the single quote.
\<close>

definition relation_clause :: "string \<Rightarrow> string \<Rightarrow> string" where
  "relation_clause directory table =
     ''\<newline>WITH '' @ [CHR 0x22] @ table @ [CHR 0x22] @
     '' as (select * from read_parquet('' @ [CHR 0x27] @ directory @ ''/'' @ table @
     ''/*.parquet', filename=true,file_row_number=true,union_by_name=true)) ''"

text \<open>
  Lines 96-101: the loop over \<open>tables\<close> with its index \<open>i\<close>; a comma is appended before
  every clause but the first.
\<close>

fun append_relations :: "string \<Rightarrow> nat \<Rightarrow> string list \<Rightarrow> string \<Rightarrow> string" where
  "append_relations directory i [] sql = sql"
| "append_relations directory i (table # tables) sql =
     append_relations directory (Suc i) tables
       ((if i > 0 then sql @ '','' else sql) @ relation_clause directory table)"

text \<open>Lines 94-103: the setup statements, the relation clauses, the wrapped user query.\<close>

definition queryDuckDB_sql :: "string \<Rightarrow> string list \<Rightarrow> string \<Rightarrow> string" where
  "queryDuckDB_sql directory tables query =
     append_relations directory 0 tables ''INSTALL 'parquet'; LOAD 'parquet'; '' @
     '' SELECT * FROM ('' @ query @ '') ''"

section \<open>The SSH client and the remote host\<close>

text \<open>
  The calls the code makes on the SSH libraries (\<open>golang.org/x/crypto/ssh\<close> and
  \<open>go-sshclient\<close>): parsing the key, dialling, running a command to completion, the two
  SFTP operations, and the calls on an interactive session and on its stdin pipe.
  \<open>ParsePrivateKey\<close> computes locally; its outcome is taken from the environment like that
  of the other calls. \<open>ClientClose\<close> is \<open>Close\<close> on the client returned by \<open>Dial\<close>.
\<close>

datatype call =
    ParsePrivateKey string
  | Dial string string string
  | CmdRun string
  | SftpUpload string string
  | SftpReadDir string
  | NewSession
  | StdinPipe
  | SessionStart string
  | WriteString string
  | PipeClose
  | SessionWait
  | SessionClose
  | ClientClose

text \<open>
  A call answers with an error or with its result. The only result the code reads is the
  listing of \<open>ReadDir\<close>; the clients, sessions and pipes that the calls hand back live in
  the state of the host. A host is any function from a call and a state to a reply and the
  next state: the network, the remote file system, the engine process and the sink that
  receives its output are all inside \<open>'w\<close>. A run carries the state of the host and the
  calls made so far, each with its reply.
\<close>

type_synonym reply = "error + file_info list"
type_synonym 'w host = "call \<Rightarrow> 'w \<Rightarrow> reply \<times> 'w"
type_synonym event = "call \<times> reply"
type_synonym 'w run = "'w \<times> event list"

definition perform :: "'w host \<Rightarrow> call \<Rightarrow> 'w run \<Rightarrow> reply \<times> 'w run" where
  "perform h c st = (case h c (fst st) of (r, w') \<Rightarrow> (r, (w', snd st @ [(c, r)])))"

text \<open>
  \<open>openSSHConnection\<close> (lines 26-47). The address is \<open>fmt.Sprintf("%s:%s", Host, Port)\<close>;
  the client configuration holds the user and the signer made from the key.
\<close>

definition openSSHConnection :: "'w host \<Rightarrow> SSHServer \<Rightarrow> 'w run \<Rightarrow> error option \<times> 'w run" where
  "openSSHConnection h s st =
    (case perform h (ParsePrivateKey (PrivateKey s)) st of
       (Inl err, st1) \<Rightarrow> (Some err, st1)
     | (Inr _, st1) \<Rightarrow>
        (case perform h (Dial ''tcp'' (Host s @ '':'' @ Port s) (User s)) st1 of
           (Inl err, st2) \<Rightarrow> (Some err, st2)
         | (Inr _, st2) \<Rightarrow> (None, st2)))"

text \<open>
  \<open>setupDuckDB\<close> (lines 49-77): \<open>mkdir -p\<close> on the configured directory, the probe
  \<open>./duckdb\<close>, and, when the probe returns an error, the upload of the bundled binary to the
  remote path \<open>duckdb\<close> followed by \<open>chmod 755 duckdb\<close>.
\<close>

definition setupDuckDB :: "'w host \<Rightarrow> SSHServer \<Rightarrow> 'w run \<Rightarrow> error option \<times> 'w run" where
  "setupDuckDB h s st =
    (case perform h (CmdRun (''mkdir -p '' @ Directory s)) st of
       (Inl err, st1) \<Rightarrow> (Some err, st1)
     | (Inr _, st1) \<Rightarrow>
        (case perform h (CmdRun ''./duckdb'') st1 of
           (Inr _, st2) \<Rightarrow> (None, st2)
         | (Inl _, st2) \<Rightarrow>
            (case perform h (SftpUpload ''pkg/destinations/ssh/duckdb'' ''duckdb'') st2 of
               (Inl err, st3) \<Rightarrow> (Some err, st3)
             | (Inr _, st3) \<Rightarrow>
                (case perform h (CmdRun ''chmod 755 duckdb'') st3 of
                   (Inl err, st4) \<Rightarrow> (Some err, st4)
                 | (Inr _, st4) \<Rightarrow> (None, st4)))))"

text \<open>
  Lines 114-142 of \<open>queryDuckDB\<close>, the part that runs once the session exists: open the
  stdin pipe, start \<open>./duckdb --json\<close> with stdout and stderr set to the writer, write the
  script, close the pipe, wait for the exit.
\<close>

definition queryDuckDB_session :: "'w host \<Rightarrow> string \<Rightarrow> 'w run \<Rightarrow> error option \<times> 'w run" where
  "queryDuckDB_session h sql st =
    (case perform h StdinPipe st of
       (Inl err, st1) \<Rightarrow> (Some err, st1)
     | (Inr _, st1) \<Rightarrow>
        (case perform h (SessionStart ''./duckdb --json'') st1 of
           (Inl err, st2) \<Rightarrow> (Some err, st2)
         | (Inr _, st2) \<Rightarrow>
            (case perform h (WriteString sql) st2 of
               (Inl err, st3) \<Rightarrow> (Some err, st3)
             | (Inr _, st3) \<Rightarrow>
                (case perform h PipeClose st3 of
                   (Inl err, st4) \<Rightarrow> (Some err, st4)
                 | (Inr _, st4) \<Rightarrow>
                    (case perform h SessionWait st4 of
                       (Inl err, st5) \<Rightarrow> (Some err, st5)
                     | (Inr _, st5) \<Rightarrow> (None, st5))))))"

text \<open>
  \<open>queryDuckDB\<close> (lines 79-143): list the configured directory, build the script, create
  the session, and run it; \<open>defer se.Close()\<close> closes the session on every return that
  follows its creation, and the error of that close is dropped. The writer is the sink in
  the state of the host; the trace log of the script (line 105) is left out.
\<close>

definition queryDuckDB :: "'w host \<Rightarrow> SSHServer \<Rightarrow> string \<Rightarrow> 'w run \<Rightarrow> error option \<times> 'w run" where
  "queryDuckDB h s query st =
    (case perform h (SftpReadDir (Directory s)) st of
       (Inl err, st1) \<Rightarrow> (Some err, st1)
     | (Inr files, st1) \<Rightarrow>
        (let tables = queryDuckDB_tables files;
             sql = queryDuckDB_sql (Directory s) tables query
         in case perform h NewSession st1 of
              (Inl err, st2) \<Rightarrow> (Some err, st2)
            | (Inr _, st2) \<Rightarrow>
               (case queryDuckDB_session h sql st2 of
                  (res, st3) \<Rightarrow> (res, snd (perform h SessionClose st3)))))"

text \<open>
  Modelled from the spec: \<open>util.TrimQuery\<close>, the sanitation that \<open>QueryJSON\<close> calls; the
  package \<open>scratchdata/util\<close> is not among the sources. The spec requires the step to strip
  the statement-terminator sequences of the inbound query; the call site shows that it
  returns a string and no error, so it strips: every \<open>;\<close> is removed.
\<close>

definition TrimQuery :: "string \<Rightarrow> string" where
  "TrimQuery query = filter (\<lambda>c. c \<noteq> CHR '';'') query"

text \<open>\<open>QueryJSON\<close> (lines 145-159).\<close>

definition QueryJSON :: "'w host \<Rightarrow> SSHServer \<Rightarrow> string \<Rightarrow> 'w run \<Rightarrow> error option \<times> 'w run" where
  "QueryJSON h s query st =
    (case openSSHConnection h s st of
       (Some err, st1) \<Rightarrow> (Some err, st1)
     | (None, st1) \<Rightarrow>
        (case setupDuckDB h s st1 of
           (Some err, st2) \<Rightarrow> (Some err, st2)
         | (None, st2) \<Rightarrow> queryDuckDB h s (TrimQuery query) st2))"

section \<open>Object storage: Storage.Upload\<close>

text \<open>
  The struct \<open>Storage\<close> of \<open>pkg/filestore/s3/s3.go\<close> (lines 20-26), without its handles on
  the service (context, client, downloader), which are part of the environment below.
\<close>

record Storage =
  accessKey :: string
  bucket :: string

text \<open>
  The calls of \<open>Upload\<close>: \<open>Seek\<close> on the reader, with an offset and \<open>io.SeekStart\<close>,
  \<open>io.SeekCurrent\<close> or \<open>io.SeekEnd\<close>; \<open>PutObjectWithContext\<close> with the bucket, the key
  and the content disposition of its input, whose body is the reader; and
  \<open>CreateBucketWithContext\<close> with the bucket. A call answers with an error or with a
  number, the new offset for \<open>Seek\<close>; the code discards the outputs of the two service
  calls. The reader and the service are in the state \<open>'w\<close> of the environment.
\<close>

datatype whence = SeekStart | SeekCurrent | SeekEnd

datatype s3_call =
    Seek int whence
  | PutObject string string string
  | CreateBucket string

type_synonym s3_reply = "error + int"
type_synonym 'w s3_env = "s3_call \<Rightarrow> 'w \<Rightarrow> s3_reply \<times> 'w"
type_synonym s3_event = "s3_call \<times> s3_reply"
type_synonym 'w s3_run = "'w \<times> s3_event list"

definition s3_perform :: "'w s3_env \<Rightarrow> s3_call \<Rightarrow> 'w s3_run \<Rightarrow> s3_reply \<times> 'w s3_run" where
  "s3_perform env c st = (case env c (fst st) of (r, w') \<Rightarrow> (r, (w', snd st @ [(c, r)])))"

text \<open>
  \<open>errors.As(err, &awsErr)\<close> followed by \<open>awsErr.Code()\<close>: the code of the first
  \<open>awserr.Error\<close> in the chain of \<open>err\<close>, if there is one.
\<close>

fun aws_code :: "error \<Rightarrow> string option" where
  "aws_code (New _) = None"
| "aws_code (Aws code _) = Some code"
| "aws_code (Errorf _ err) = aws_code err"

text \<open>The constant \<open>s3.ErrCodeNoSuchBucket\<close> of the AWS SDK.\<close>

definition ErrCodeNoSuchBucket :: string where
  "ErrCodeNoSuchBucket = ''NoSuchBucket''"

text \<open>\<open>Storage.Upload\<close> (lines 29-64).\<close>

definition Upload :: "'w s3_env \<Rightarrow> Storage \<Rightarrow> string \<Rightarrow> 'w s3_run \<Rightarrow> error option \<times> 'w s3_run" where
  "Upload env s path st =
    (case s3_perform env (Seek 0 SeekCurrent) st of
       (Inl err, st1) \<Rightarrow>
         (Some (Errorf ''Storage.Upload: Cannnot get current file position: '' err), st1)
     | (Inr rPos, st1) \<Rightarrow>
        (case s3_perform env (PutObject (bucket s) path ''attachment'') st1 of
           (Inr _, st2) \<Rightarrow> (None, st2)
         | (Inl err, st2) \<Rightarrow>
            if aws_code err \<noteq> Some ErrCodeNoSuchBucket then
              (Some (Errorf (''Storage.Upload: '' @ path @ '': '') err), st2)
            else
              (case s3_perform env (CreateBucket (bucket s)) st2 of
                 (Inl err, st3) \<Rightarrow>
                   (Some (Errorf (''Storage.Upload: '' @ path @ '': Cannot create bucket: '') err),
                    st3)
               | (Inr _, st3) \<Rightarrow>
                  (case s3_perform env (Seek rPos SeekStart) st3 of
                     (Inl err, st4) \<Rightarrow>
                       (Some (Errorf ''Storage.Upload: Cannnot set file position: '' err), st4)
                   | (Inr _, st4) \<Rightarrow>
                      (case s3_perform env (PutObject (bucket s) path ''attachment'') st4 of
                         (Inl err, st5) \<Rightarrow>
                           (Some (Errorf (''Storage.Upload: '' @ path @ '': '') err), st5)
                       | (Inr _, st5) \<Rightarrow> (None, st5))))))"

section \<open>Notions used to state the properties\<close>

text \<open>
  The relation declaration in the words of the spec: the clause of the first table with no
  leading separator, the clause of every further table after a comma.
\<close>

fun relation_declaration :: "string \<Rightarrow> string list \<Rightarrow> string" where
  "relation_declaration directory [] = []"
| "relation_declaration directory (table # tables) =
     relation_clause directory table @
     concat (map (\<lambda>t. '','' @ relation_clause directory t) tables)"

text \<open>
  The single multi-relation declaration in the words of the spec: one \<open>WITH\<close>, then the
  named relations, the first with no leading separator and every further one after a comma.
  A named relation is the text that line 100 renders after its \<open>WITH\<close>.
\<close>

definition named_relation :: "string \<Rightarrow> string \<Rightarrow> string" where
  "named_relation directory table =
     [CHR 0x22] @ table @ [CHR 0x22] @
     '' as (select * from read_parquet('' @ [CHR 0x27] @ directory @ ''/'' @ table @
     ''/*.parquet', filename=true,file_row_number=true,union_by_name=true)) ''"

fun multi_relation_declaration :: "string \<Rightarrow> string list \<Rightarrow> string" where
  "multi_relation_declaration directory [] = []"
| "multi_relation_declaration directory (table # tables) =
     ''\<newline>WITH '' @ named_relation directory table @
     concat (map (\<lambda>t. '','' @ named_relation directory t) tables)"

text \<open>The steps of a query request, in the order of the pipeline, and the step of each call.
  The two closing calls release a resource and belong to no step.\<close>

datatype step = Connect | Provision | ListDirectory | CreateSession | OpenStdin
  | StartProcess | WriteSQL | CloseStdin | WaitExit

fun step_of :: "call \<Rightarrow> step option" where
  "step_of (ParsePrivateKey _) = Some Connect"
| "step_of (Dial _ _ _) = Some Connect"
| "step_of (CmdRun _) = Some Provision"
| "step_of (SftpUpload _ _) = Some Provision"
| "step_of (SftpReadDir _) = Some ListDirectory"
| "step_of NewSession = Some CreateSession"
| "step_of StdinPipe = Some OpenStdin"
| "step_of (SessionStart _) = Some StartProcess"
| "step_of (WriteString _) = Some WriteSQL"
| "step_of PipeClose = Some CloseStdin"
| "step_of SessionWait = Some WaitExit"
| "step_of SessionClose = None"
| "step_of ClientClose = None"

definition pipeline :: "step list" where
  "pipeline = [Connect, Provision, ListDirectory, CreateSession, OpenStdin, StartProcess,
     WriteSQL, CloseStdin, WaitExit]"

text \<open>The steps that a run went through, each named once.\<close>

definition steps :: "event list \<Rightarrow> step list" where
  "steps tr = remdups_adj (List.map_filter (\<lambda>ev. step_of (fst ev)) tr)"

text \<open>
  A call failed in a run when the run holds it with an error for its reply. A failed call
  is fatal when its error is the error of its step: every call but the probe of the engine,
  whose failure makes provisioning install the engine, and the deferred close of the
  session, whose error is dropped.
\<close>

definition failed :: "event list \<Rightarrow> call \<Rightarrow> bool" where
  "failed tr c = (\<exists>ev \<in> set tr. fst ev = c \<and> isl (snd ev))"

definition fatal :: "event \<Rightarrow> bool" where
  "fatal ev = (isl (snd ev) \<and> fst ev \<noteq> CmdRun ''./duckdb'' \<and> fst ev \<noteq> SessionClose)"

definition first_failure :: "event list \<Rightarrow> error option" where
  "first_failure tr = (case find fatal tr of Some (c, Inl e) \<Rightarrow> Some e | _ \<Rightarrow> None)"

text \<open>The number of upload calls in a run.\<close>

definition uploads :: "event list \<Rightarrow> nat" where
  "uploads tr = length (filter (\<lambda>ev. case fst ev of SftpUpload _ _ \<Rightarrow> True | _ \<Rightarrow> False) tr)"

text \<open>
  A host on which the engine never runs, as when the bundled binary is built for another
  architecture: the probe fails whatever has been installed, every other call succeeds.
\<close>

fun stubborn_host :: "unit host" where
  "stubborn_host (CmdRun cmd) w =
     (if cmd = ''./duckdb'' then (Inl (New ''Process exited with status 126''), w)
      else (Inr [], w))"
| "stubborn_host c w = (Inr [], w)"

text \<open>A call of \<open>Upload\<close> failed in a run when the run holds it with an error for its reply.\<close>

definition s3_failed :: "s3_event list \<Rightarrow> s3_call \<Rightarrow> bool" where
  "s3_failed tr c = (\<exists>ev \<in> set tr. fst ev = c \<and> isl (snd ev))"

section \<open>A simulated remote host\<close>

text \<open>
  A small host on which the functions above can be run: the entries of the data directory,
  whether the engine binary is there and executable, whether the host lets \<open>chmod\<close>
  succeed, whether the engine exits with a failure, the text the engine has received and the
  bytes the sink has received. An upload leaves a file that is not executable, \<open>chmod\<close>
  makes it so, the probe succeeds exactly on an executable binary, and the engine writes to
  the sink before it exits.
\<close>

record remote =
  entries :: "file_info list"
  engine_present :: bool
  engine_executable :: bool
  chmod_allowed :: bool
  exit_failure :: bool
  stdin_text :: string
  sink :: string

fun test_host :: "remote host" where
  "test_host (CmdRun cmd) w =
     (if cmd = ''./duckdb'' then
        (if engine_present w \<and> engine_executable w then (Inr [], w)
         else (Inl (New ''Process exited with status 126''), w))
      else if cmd = ''chmod 755 duckdb'' then
        (if engine_present w \<and> chmod_allowed w then (Inr [], w\<lparr>engine_executable := True\<rparr>)
         else (Inl (New ''Process exited with status 1''), w))
      else (Inr [], w))"
| "test_host (SftpUpload source target) w =
     (Inr [], w\<lparr>engine_present := True, engine_executable := False\<rparr>)"
| "test_host (SftpReadDir dir) w = (Inr (entries w), w)"
| "test_host (WriteString text) w = (Inr [], w\<lparr>stdin_text := stdin_text w @ text\<rparr>)"
| "test_host SessionWait w =
     (if exit_failure w then
        (Inl (New ''Process exited with status 1''), w\<lparr>sink := sink w @ ''[{''\<rparr>)
      else (Inr [], w\<lparr>sink := sink w @ ''[{}]''\<rparr>))"
| "test_host c w = (Inr [], w)"

definition test_server :: SSHServer where
  "test_server = \<lparr>PrivateKey = ''key'', User = ''scratch'', Host = ''db.example.com'',
     Port = ''22'', Directory = ''/data''\<rparr>"

definition fresh_remote :: remote where
  "fresh_remote = \<lparr>entries = [\<lparr>Name = ''events'', IsDir = True\<rparr>,
       \<lparr>Name = ''notes.txt'', IsDir = False\<rparr>, \<lparr>Name = ''users'', IsDir = True\<rparr>],
     engine_present = False, engine_executable = False, chmod_allowed = True,
     exit_failure = False, stdin_text = [], sink = []\<rparr>"

section \<open>A simulated object store\<close>

text \<open>
  A reader with a position and a length, and a store with its buckets, which may refuse to
  create one. A put reads the body from the position of the reader to its end, also when
  the bucket is missing, and the store remembers from which offset each stored object was
  read.
\<close>

record store =
  reader_pos :: int
  reader_len :: int
  buckets :: "string list"
  create_denied :: bool
  stored :: "(string \<times> string \<times> int) list"

fun test_store :: "store s3_env" where
  "test_store (Seek off SeekStart) w = (Inr off, w\<lparr>reader_pos := off\<rparr>)"
| "test_store (Seek off SeekCurrent) w =
     (Inr (reader_pos w + off), w\<lparr>reader_pos := reader_pos w + off\<rparr>)"
| "test_store (Seek off SeekEnd) w =
     (Inr (reader_len w + off), w\<lparr>reader_pos := reader_len w + off\<rparr>)"
| "test_store (PutObject b key disposition) w =
     (if b \<in> set (buckets w) then
        (Inr 0, w\<lparr>reader_pos := reader_len w, stored := stored w @ [(b, key, reader_pos w)]\<rparr>)
      else
        (Inl (Aws ''NoSuchBucket'' ''The specified bucket does not exist''),
         w\<lparr>reader_pos := reader_len w\<rparr>))"
| "test_store (CreateBucket b) w =
     (if create_denied w then (Inl (Aws ''AccessDenied'' ''Access Denied''), w)
      else (Inr 0, w\<lparr>buckets := buckets w @ [b]\<rparr>))"

definition test_storage :: Storage where
  "test_storage = \<lparr>accessKey = ''secret'', bucket = ''scratch''\<rparr>"

definition empty_store :: store where
  "empty_store = \<lparr>reader_pos = 7, reader_len = 20, buckets = [], create_denied = False,
     stored = []\<rparr>"

section \<open>Properties of the query rewriter\<close>

lemma collect_tables_filter:
  "collect_tables files tables = tables @ map Name (filter IsDir files)"
  by (induction files arbitrary: tables) simp_all

lemma queryDuckDB_tables_filter:
  "queryDuckDB_tables files = map Name (filter IsDir files)"
  by (simp add: queryDuckDB_tables_def collect_tables_filter)

lemma append_relations_later:
  "0 < i \<Longrightarrow> append_relations directory i tables sql =
     sql @ concat (map (\<lambda>t. '','' @ relation_clause directory t) tables)"
  by (induction tables arbitrary: i sql) simp_all

lemma append_relations_first:
  "append_relations directory 0 (table # tables) sql =
     sql @ relation_clause directory table @
     concat (map (\<lambda>t. '','' @ relation_clause directory t) tables)"
  by (simp add: append_relations_later)

text \<open>
  C10. \<open>InsertBatchFromNDJson\<close> returns a non-nil error whatever the server configuration
  and the input are: the SSH destination accepts no ingestion.
\<close>

theorem InsertBatchFromNDJson_always_fails:
  "InsertBatchFromNDJson s input \<noteq> None"
  by (simp add: InsertBatchFromNDJson_def)

text \<open>
  For a non-empty list of table names the script is the two setup statements, the clause of
  the first table with nothing in front of it, the clause of every further table with a
  comma in front of it, in the order of the list, and the wrapped user query, with one blank
  before and one after the wrapper. For a single table this is the declaration of the spec.
\<close>

lemma queryDuckDB_sql_joins_relations:
  assumes "tables \<noteq> []"
  shows "queryDuckDB_sql directory tables query =
    ''INSTALL 'parquet'; LOAD 'parquet'; '' @
    relation_clause directory (hd tables) @
    concat (map (\<lambda>t. '','' @ relation_clause directory t) (tl tables)) @
    '' SELECT * FROM ('' @ query @ '') ''"
proof -
  from assms obtain t ts where "tables = t # ts"
    by (cases tables) auto
  then show ?thesis
    by (simp only: queryDuckDB_sql_def append_relations_first list.sel append_assoc)
qed

lemma queryDuckDB_sql_one_table:
  "queryDuckDB_sql directory [table] query =
     ''INSTALL 'parquet'; LOAD 'parquet'; '' @ multi_relation_declaration directory [table] @
     '' SELECT * FROM ('' @ query @ '') ''"
  by (simp add: queryDuckDB_sql_def relation_clause_def named_relation_def)

text \<open>
  C1. The scenario of the tables \<open>events\<close> and \<open>users\<close> with the query
  \<open>SELECT count(*) FROM events\<close>. The script names both tables in the order of the list, the
  comma stands before the second clause only, and the script ends with
  \<open>SELECT * FROM (SELECT count(*) FROM events)\<close>; but every clause brings its own \<open>WITH\<close>
  (line 100), so a second \<open>WITH\<close> follows the comma, and the script is not the setup
  statements, the single multi-relation declaration and the wrapped query.
\<close>

theorem queryDuckDB_sql_repeats_WITH:
  "queryDuckDB_sql ''/data'' [''events'', ''users''] ''SELECT count(*) FROM events'' =
    ''INSTALL 'parquet'; LOAD 'parquet'; '' @
    ''\<newline>WITH '' @ [CHR 0x22] @ ''events'' @ [CHR 0x22] @
    '' as (select * from read_parquet('' @ [CHR 0x27] @
    ''/data/events/*.parquet', filename=true,file_row_number=true,union_by_name=true)) '' @
    '','' @
    ''\<newline>WITH '' @ [CHR 0x22] @ ''users'' @ [CHR 0x22] @
    '' as (select * from read_parquet('' @ [CHR 0x27] @
    ''/data/users/*.parquet', filename=true,file_row_number=true,union_by_name=true)) '' @
    '' SELECT * FROM (SELECT count(*) FROM events) '' \<and>
   queryDuckDB_sql ''/data'' [''events'', ''users''] ''SELECT count(*) FROM events'' \<noteq>
    ''INSTALL 'parquet'; LOAD 'parquet'; '' @
    multi_relation_declaration ''/data'' [''events'', ''users''] @
    '' SELECT * FROM (SELECT count(*) FROM events) ''"
  by (simp add: queryDuckDB_sql_def relation_clause_def named_relation_def)

text \<open>
  C7. When the listing holds no directory, no table is discovered, the script is built all
  the same, it holds no relation clause, and it still ends with the wrapped user query: it
  is the setup statements followed by \<open>SELECT * FROM (query)\<close>. The witness is the scenario
  of the query \<open>SELECT 1\<close>, on a listing that holds one plain file.
\<close>

theorem queryDuckDB_sql_no_partitions:
  assumes "filter IsDir files = []"
  shows "queryDuckDB_tables files = [] \<and>
    queryDuckDB_sql directory (queryDuckDB_tables files) query =
      ''INSTALL 'parquet'; LOAD 'parquet'; '' @ '' SELECT * FROM ('' @ query @ '') ''"
  using assms by (simp add: queryDuckDB_tables_filter queryDuckDB_sql_def)

theorem queryDuckDB_sql_no_partitions_witness:
  "filter IsDir [\<lparr>Name = ''README.md'', IsDir = False\<rparr>] = [] \<and>
   queryDuckDB_tables [\<lparr>Name = ''README.md'', IsDir = False\<rparr>] = [] \<and>
   queryDuckDB_sql ''/data'' (queryDuckDB_tables [\<lparr>Name = ''README.md'', IsDir = False\<rparr>])
       ''SELECT 1'' =
     ''INSTALL 'parquet'; LOAD 'parquet';  SELECT * FROM (SELECT 1) ''"
proof -
  have h: "filter IsDir [\<lparr>Name = ''README.md'', IsDir = False\<rparr>] = []"
    by simp
  note r = queryDuckDB_sql_no_partitions [OF h, of "''/data''" "''SELECT 1''"]
  have lit: "''INSTALL 'parquet'; LOAD 'parquet'; '' @ '' SELECT * FROM ('' @ ''SELECT 1'' @ '') '' =
    ''INSTALL 'parquet'; LOAD 'parquet';  SELECT * FROM (SELECT 1) ''"
    by simp
  from r have t: "queryDuckDB_tables [\<lparr>Name = ''README.md'', IsDir = False\<rparr>] = []"
    by (rule conjunct1)
  from r [THEN conjunct2] lit
  have q: "queryDuckDB_sql ''/data'' (queryDuckDB_tables [\<lparr>Name = ''README.md'', IsDir = False\<rparr>])
       ''SELECT 1'' = ''INSTALL 'parquet'; LOAD 'parquet';  SELECT * FROM (SELECT 1) ''"
    by (rule trans)
  from h t q show ?thesis by (intro conjI)
qed

section \<open>The paths of a query request\<close>

text \<open>Each function extends the run by one of a few sequences of calls, one per return.\<close>



lemma openSSHConnection_paths:
  assumes "openSSHConnection h s (w, tr) = (res, (w', tr'))"
  obtains
    (key) e where "res = Some e" "tr' = tr @ [(ParsePrivateKey (PrivateKey s), Inl e)]"
  | (dial) v e where "res = Some e"
      "tr' = tr @ [(ParsePrivateKey (PrivateKey s), Inr v),
                   (Dial ''tcp'' (Host s @ '':'' @ Port s) (User s), Inl e)]"
  | (ok) v v' where "res = None"
      "tr' = tr @ [(ParsePrivateKey (PrivateKey s), Inr v),
                   (Dial ''tcp'' (Host s @ '':'' @ Port s) (User s), Inr v')]"
  using assms unfolding openSSHConnection_def perform_def
  by (auto split: prod.splits sum.splits)

lemma setupDuckDB_paths:
  assumes "setupDuckDB h s (w, tr) = (res, (w', tr'))"
  obtains
    (mkdir) e where "res = Some e" "tr' = tr @ [(CmdRun (''mkdir -p '' @ Directory s), Inl e)]"
  | (present) v v' where "res = None"
      "tr' = tr @ [(CmdRun (''mkdir -p '' @ Directory s), Inr v), (CmdRun ''./duckdb'', Inr v')]"
  | (upload) v e e' where "res = Some e'"
      "tr' = tr @ [(CmdRun (''mkdir -p '' @ Directory s), Inr v), (CmdRun ''./duckdb'', Inl e),
                   (SftpUpload ''pkg/destinations/ssh/duckdb'' ''duckdb'', Inl e')]"
  | (chmod) v e v' e' where "res = Some e'"
      "tr' = tr @ [(CmdRun (''mkdir -p '' @ Directory s), Inr v), (CmdRun ''./duckdb'', Inl e),
                   (SftpUpload ''pkg/destinations/ssh/duckdb'' ''duckdb'', Inr v'),
                   (CmdRun ''chmod 755 duckdb'', Inl e')]"
  | (installed) v e v' v'' where "res = None"
      "tr' = tr @ [(CmdRun (''mkdir -p '' @ Directory s), Inr v), (CmdRun ''./duckdb'', Inl e),
                   (SftpUpload ''pkg/destinations/ssh/duckdb'' ''duckdb'', Inr v'),
                   (CmdRun ''chmod 755 duckdb'', Inr v'')]"
  using assms unfolding setupDuckDB_def perform_def
  by (auto split: prod.splits sum.splits)



lemma queryDuckDB_session_paths:
  assumes "queryDuckDB_session h sql (w, tr) = (res, (w', tr'))"
  obtains
    (at_pipe) e where "res = Some e" "tr' = tr @ [(StdinPipe, Inl e)]"
  | (at_start) v1 e where "res = Some e"
      "tr' = tr @ [(StdinPipe, Inr v1), (SessionStart ''./duckdb --json'', Inl e)]"
  | (at_write) v1 v2 e where "res = Some e"
      "tr' = tr @ [(StdinPipe, Inr v1), (SessionStart ''./duckdb --json'', Inr v2),
                   (WriteString sql, Inl e)]"
  | (at_close) v1 v2 v3 e where "res = Some e"
      "tr' = tr @ [(StdinPipe, Inr v1), (SessionStart ''./duckdb --json'', Inr v2),
                   (WriteString sql, Inr v3), (PipeClose, Inl e)]"
  | (at_wait) v1 v2 v3 v4 e where "res = Some e"
      "tr' = tr @ [(StdinPipe, Inr v1), (SessionStart ''./duckdb --json'', Inr v2),
                   (WriteString sql, Inr v3), (PipeClose, Inr v4), (SessionWait, Inl e)]"
  | (finished) v1 v2 v3 v4 v5 where "res = None"
      "tr' = tr @ [(StdinPipe, Inr v1), (SessionStart ''./duckdb --json'', Inr v2),
                   (WriteString sql, Inr v3), (PipeClose, Inr v4), (SessionWait, Inr v5)]"
  using assms unfolding queryDuckDB_session_def perform_def
  by (auto split: prod.splits sum.splits)

lemma queryDuckDB_paths:
  assumes "queryDuckDB h s query (w, tr) = (res, (w', tr'))"
  obtains
    (at_list) e where "res = Some e" "tr' = tr @ [(SftpReadDir (Directory s), Inl e)]"
  | (at_session) files e where "res = Some e"
      "tr' = tr @ [(SftpReadDir (Directory s), Inr files), (NewSession, Inl e)]"
  | (ran) files v w1 w2 tr2 rc where
      "queryDuckDB_session h (queryDuckDB_sql (Directory s) (queryDuckDB_tables files) query)
         (w1, tr @ [(SftpReadDir (Directory s), Inr files), (NewSession, Inr v)]) = (res, (w2, tr2))"
      "tr' = tr2 @ [(SessionClose, rc)]"
  using assms unfolding queryDuckDB_def perform_def
  by (auto simp: Let_def split: prod.splits sum.splits)



lemmas run_defs = QueryJSON_def openSSHConnection_def setupDuckDB_def queryDuckDB_def
  queryDuckDB_session_def perform_def test_server_def fresh_remote_def Let_def

section \<open>The request as a pipeline\<close>

text \<open>
  C3. In a query request the nine steps are taken in the order of the pipeline and each one
  only after the one before it succeeded: the error returned is the error of the first
  fatal failure of the run, after that failure nothing is performed but the deferred close
  of the session, the steps of the run are a prefix of the pipeline and, when no error is
  returned, all of it. A failed wait, which is how a non-zero exit of the engine shows, is
  returned as the error, whatever the host has written to the sink by then. The witness
  is a run whose engine writes to the sink and then exits with a failure.
\<close>

theorem QueryJSON_fail_fast:
  assumes "QueryJSON h s query (w, []) = (res, (w', tr))"
  shows "res = first_failure tr \<and>
    (\<forall>ev \<in> set (drop 1 (dropWhile (\<lambda>ev. \<not> fatal ev) tr)). fst ev = SessionClose) \<and>
    prefix (steps tr) pipeline \<and>
    (res = None \<longrightarrow> steps tr = pipeline) \<and>
    (\<forall>e. (SessionWait, Inl e) \<in> set tr \<longrightarrow> res = Some e)"
proof -
  obtain r1 w1 t1 where c: "openSSHConnection h s (w, []) = (r1, (w1, t1))"
    by (metis surj_pair)
  show ?thesis
  proof (cases r1)
    case (Some e)
    with c assms have "res = Some e" "tr = t1" by (simp_all add: QueryJSON_def)
    with c Some show ?thesis
      by (elim openSSHConnection_paths)
         (simp_all add: first_failure_def fatal_def steps_def pipeline_def)
  next
    case None
    obtain r2 w2 t2 where p: "setupDuckDB h s (w1, t1) = (r2, (w2, t2))"
      by (metis surj_pair)
    show ?thesis
    proof (cases r2)
      case (Some e)
      with c p None assms have "res = Some e" "tr = t2" by (simp_all add: QueryJSON_def)
      with c p None Some show ?thesis
        by (elim openSSHConnection_paths setupDuckDB_paths)
           (simp_all add: first_failure_def fatal_def steps_def pipeline_def)
    next
      case n2: None
      with c p None assms have q: "queryDuckDB h s (TrimQuery query) (w2, t2) = (res, (w', tr))"
        by (simp add: QueryJSON_def)
      from c p None n2 q show ?thesis
        by (elim openSSHConnection_paths setupDuckDB_paths queryDuckDB_paths queryDuckDB_session_paths)
           (simp_all add: first_failure_def fatal_def steps_def pipeline_def)
    qed
  qed
qed




theorem QueryJSON_fail_fast_witness:
  "fst (QueryJSON test_host test_server ''SELECT 1'' (fresh_remote\<lparr>exit_failure := True\<rparr>, [])) =
     Some (New ''Process exited with status 1'') \<and>
   sink (fst (snd (QueryJSON test_host test_server ''SELECT 1''
     (fresh_remote\<lparr>exit_failure := True\<rparr>, [])))) = ''[{'' \<and>
   (SessionWait, Inl (New ''Process exited with status 1'')) \<in> set (snd (snd (QueryJSON test_host
     test_server ''SELECT 1'' (fresh_remote\<lparr>exit_failure := True\<rparr>, [])))) \<and>
   first_failure (snd (snd (QueryJSON test_host test_server ''SELECT 1''
     (fresh_remote\<lparr>exit_failure := True\<rparr>, [])))) = Some (New ''Process exited with status 1'')"
proof -
  define R where "R = QueryJSON test_host test_server ''SELECT 1''
    (fresh_remote\<lparr>exit_failure := True\<rparr>, [])"
  have r: "fst R = Some (New ''Process exited with status 1'')"
    by (simp add: R_def run_defs)
  have k: "sink (fst (snd R)) = ''[{''"
    by (simp add: R_def run_defs)
  have "QueryJSON test_host test_server ''SELECT 1'' (fresh_remote\<lparr>exit_failure := True\<rparr>, []) =
    (fst R, (fst (snd R), snd (snd R)))"
    by (simp add: R_def)
  from QueryJSON_fail_fast [OF this]
  have f: "fst R = first_failure (snd (snd R))"
    and e: "\<forall>ev \<in> set (drop 1 (dropWhile (\<lambda>ev. \<not> fatal ev) (snd (snd R)))). fst ev = SessionClose"
    by simp_all
  have m: "(SessionWait, Inl (New ''Process exited with status 1'')) \<in> set (snd (snd R))"
    by (simp add: R_def run_defs)
  from r k m f show ?thesis
    unfolding R_def by simp
qed

section \<open>Provisioning the engine\<close>

text \<open>
  C5, as stated, fails: the binary is not uploaded to the configured directory. With the
  directory \<open>/data\<close>, the upload goes to the relative path \<open>duckdb\<close>, which does not lie
  under \<open>/data\<close>.
\<close>

theorem setupDuckDB_uploads_to_fixed_path:
  "(SftpUpload ''pkg/destinations/ssh/duckdb'' ''duckdb'', Inr [])
     \<in> set (snd (snd (setupDuckDB test_host test_server (fresh_remote, [])))) \<and>
   Directory test_server = ''/data'' \<and>
   \<not> prefix (Directory test_server) ''duckdb''"
  by (simp add: run_defs)

text \<open>
  C5, amended. \<open>setupDuckDB\<close> first runs \<open>mkdir -p\<close> on the configured directory (the flag
  \<open>-p\<close> is what makes an existing directory no error on the host), then the probe
  \<open>./duckdb\<close>, and, exactly when the probe fails, whatever its error, the upload of the
  bundled binary to the fixed relative path \<open>duckdb\<close>, whatever the configured directory is,
  followed by \<open>chmod 755 duckdb\<close>. It returns an error exactly when \<open>mkdir\<close> fails, or the
  probe fails and the upload or the \<open>chmod\<close> fails, and the error is that of the last call
  made. The witness is an install on a host without the engine.
\<close>

theorem setupDuckDB_algorithm:
  assumes "setupDuckDB h s (w, []) = (res, (w', tr))"
  shows "map fst tr =
      (if failed tr (CmdRun (''mkdir -p '' @ Directory s)) then
         [CmdRun (''mkdir -p '' @ Directory s)]
       else if \<not> failed tr (CmdRun ''./duckdb'') then
         [CmdRun (''mkdir -p '' @ Directory s), CmdRun ''./duckdb'']
       else if failed tr (SftpUpload ''pkg/destinations/ssh/duckdb'' ''duckdb'') then
         [CmdRun (''mkdir -p '' @ Directory s), CmdRun ''./duckdb'',
          SftpUpload ''pkg/destinations/ssh/duckdb'' ''duckdb'']
       else
         [CmdRun (''mkdir -p '' @ Directory s), CmdRun ''./duckdb'',
          SftpUpload ''pkg/destinations/ssh/duckdb'' ''duckdb'', CmdRun ''chmod 755 duckdb'']) \<and>
    (res \<noteq> None \<longleftrightarrow>
       failed tr (CmdRun (''mkdir -p '' @ Directory s)) \<or>
       failed tr (CmdRun ''./duckdb'') \<and>
         (failed tr (SftpUpload ''pkg/destinations/ssh/duckdb'' ''duckdb'') \<or>
          failed tr (CmdRun ''chmod 755 duckdb''))) \<and>
    (\<forall>e. res = Some e \<longrightarrow> snd (last tr) = Inl e)"
  using assms
  by (elim setupDuckDB_paths) (simp_all add: failed_def)

theorem setupDuckDB_algorithm_witness:
  "map fst (snd (snd (setupDuckDB test_host test_server (fresh_remote, [])))) =
     [CmdRun ''mkdir -p /data'', CmdRun ''./duckdb'',
      SftpUpload ''pkg/destinations/ssh/duckdb'' ''duckdb'', CmdRun ''chmod 755 duckdb''] \<and>
   failed (snd (snd (setupDuckDB test_host test_server (fresh_remote, [])))) (CmdRun ''./duckdb'') \<and>
   fst (setupDuckDB test_host test_server (fresh_remote, [])) = None"
proof -
  define R where "R = setupDuckDB test_host test_server (fresh_remote, [])"
  have "setupDuckDB test_host test_server (fresh_remote, []) = (fst R, (fst (snd R), snd (snd R)))"
    by (simp add: R_def)
  note a = setupDuckDB_algorithm [OF this]
  have p: "failed (snd (snd R)) (CmdRun ''./duckdb'')"
    by (simp add: R_def run_defs failed_def)
  have m: "\<not> failed (snd (snd R)) (CmdRun (''mkdir -p '' @ Directory test_server))"
    by (simp add: R_def run_defs failed_def)
  have u: "\<not> failed (snd (snd R)) (SftpUpload ''pkg/destinations/ssh/duckdb'' ''duckdb'')"
    by (simp add: R_def run_defs failed_def)
  have c: "\<not> failed (snd (snd R)) (CmdRun ''chmod 755 duckdb'')"
    by (simp add: R_def run_defs failed_def)
  have d: "''mkdir -p '' @ Directory test_server = ''mkdir -p /data''"
    by (simp add: test_server_def)
  from a p m u c have "map fst (snd (snd R)) =
     [CmdRun (''mkdir -p '' @ Directory test_server), CmdRun ''./duckdb'',
      SftpUpload ''pkg/destinations/ssh/duckdb'' ''duckdb'', CmdRun ''chmod 755 duckdb'']"
    and "fst R = None"
    by (simp_all only: if_False if_True simp_thms not_not)
  with p d show ?thesis
    unfolding R_def by simp
qed



text \<open>
  C6, as stated, fails: on a host where the engine does not run, the first call finds the
  probe failing, uploads the binary, marks it executable and returns no error; the second
  call finds the probe failing again and uploads once more. Two calls in a row have made
  two uploads, after an install that succeeded.
\<close>

theorem setupDuckDB_twice_uploads_twice:
  "fst (setupDuckDB stubborn_host test_server ((), [])) = None \<and>
   uploads (snd (snd (setupDuckDB stubborn_host test_server ((), [])))) = 1 \<and>
   uploads (snd (snd (setupDuckDB stubborn_host test_server
        (snd (setupDuckDB stubborn_host test_server ((), [])))))) = 2 \<and>
   \<not> uploads (snd (snd (setupDuckDB stubborn_host test_server
        (snd (setupDuckDB stubborn_host test_server ((), [])))))) \<le> 1"
  by (simp add: run_defs uploads_def)

text \<open>
  C6, amended. Two calls in a row, whatever the first one returns, make at most one upload
  in total provided that, when the first call has uploaded, the probe of the second call
  does not fail: the second call then uploads nothing. The witness runs the two calls on a
  host without the engine, where the first call installs it and the second probe succeeds.
\<close>

theorem setupDuckDB_twice_one_upload:
  assumes "setupDuckDB h s (w, []) = (res1, (w1, tr1))"
    and "setupDuckDB h s (w1, tr1) = (res2, (w2, tr2))"
    and "uploads tr1 = 1 \<longrightarrow> \<not> failed (drop (length tr1) tr2) (CmdRun ''./duckdb'')"
  shows "uploads tr2 \<le> 1 \<and> (uploads tr1 = 1 \<longrightarrow> uploads (drop (length tr1) tr2) = 0)"
  using assms
  by (elim setupDuckDB_paths) (simp_all add: uploads_def failed_def)

theorem setupDuckDB_twice_one_upload_witness:
  "fst (setupDuckDB test_host test_server (fresh_remote, [])) = None \<and>
   uploads (snd (snd (setupDuckDB test_host test_server (fresh_remote, [])))) = 1 \<and>
   uploads (snd (snd (setupDuckDB test_host test_server
        (snd (setupDuckDB test_host test_server (fresh_remote, [])))))) \<le> 1"
proof -
  define A where "A = setupDuckDB test_host test_server (fresh_remote, [])"
  define B where "B = setupDuckDB test_host test_server (snd A)"
  have a: "fst A = None"
    by (simp add: A_def run_defs)
  have 1: "setupDuckDB test_host test_server (fresh_remote, []) =
      (fst A, (fst (snd A), snd (snd A)))"
    by (simp add: A_def)
  have 2: "setupDuckDB test_host test_server (fst (snd A), snd (snd A)) =
      (fst B, (fst (snd B), snd (snd B)))"
    by (simp add: B_def)
  have 3: "uploads (snd (snd A)) = 1 \<longrightarrow>
      \<not> failed (drop (length (snd (snd A))) (snd (snd B))) (CmdRun ''./duckdb'')"
    by (simp add: A_def B_def run_defs failed_def)
  have u: "uploads (snd (snd A)) = 1"
    by (simp add: A_def run_defs uploads_def)
  from setupDuckDB_twice_one_upload [OF 1 2 3] a u show ?thesis
    unfolding A_def B_def by simp
qed

section \<open>Discovered directories and declared relations\<close>

lemma append_relations_declaration:
  "append_relations directory 0 tables sql = sql @ relation_declaration directory tables"
  by (cases tables) (simp_all add: append_relations_later)

lemma queryDuckDB_sql_declaration:
  "queryDuckDB_sql directory tables query =
     ''INSTALL 'parquet'; LOAD 'parquet'; '' @ relation_declaration directory tables @
     '' SELECT * FROM ('' @ query @ '') ''"
  by (simp only: queryDuckDB_sql_def append_relations_declaration append_assoc)

lemma QueryJSON_paths:
  assumes "QueryJSON h s query (w, tr0) = (res, (w', tr))"
  obtains
    (at_connect) e where "res = Some e" "openSSHConnection h s (w, tr0) = (Some e, (w', tr))"
  | (at_provision) e w1 t1 where "res = Some e"
      "openSSHConnection h s (w, tr0) = (None, (w1, t1))"
      "setupDuckDB h s (w1, t1) = (Some e, (w', tr))"
  | (at_query) w1 t1 w2 t2 where
      "openSSHConnection h s (w, tr0) = (None, (w1, t1))"
      "setupDuckDB h s (w1, t1) = (None, (w2, t2))"
      "queryDuckDB h s (TrimQuery query) (w2, t2) = (res, (w', tr))"
  using assms unfolding QueryJSON_def
  by (auto split: prod.splits option.splits)

text \<open>
  Whatever the listing of the configured directory returns, the tables are the names of
  its entries that are directories, in the order of the listing, and none for any other
  entry; the script that is written holds one clause for each of them; and the request
  goes on to create the session, so an empty table list is not an error.
\<close>

lemma queryDuckDB_declares_directories:
  assumes "queryDuckDB h s query (w, []) = (res, (w', tr))"
    and "(SftpReadDir (Directory s), Inr files) \<in> set tr"
  shows "queryDuckDB_tables files = map Name (filter IsDir files) \<and>
    (\<forall>sql r. (WriteString sql, r) \<in> set tr \<longrightarrow>
       sql = ''INSTALL 'parquet'; LOAD 'parquet'; '' @
         relation_declaration (Directory s) (map Name (filter IsDir files)) @
         '' SELECT * FROM ('' @ query @ '') '') \<and>
    NewSession \<in> fst ` set tr"
  using assms
  by (elim queryDuckDB_paths queryDuckDB_session_paths)
     (auto simp only: queryDuckDB_sql_declaration queryDuckDB_tables_filter set_simps append.simps
        insert_iff empty_iff prod.inject call.inject call.distinct sum.inject sum.distinct
        image_insert fst_conv simp_thms)

text \<open>The name of a directory goes into its clause as it is, a double quote included.\<close>

lemma relation_clause_unescaped:
  "relation_clause ''/data'' (''a'' @ [CHR 0x22] @ ''b'') =
    ''\<newline>WITH '' @ [CHR 0x22] @ ''a'' @ [CHR 0x22] @ ''b'' @ [CHR 0x22] @
    '' as (select * from read_parquet('' @ [CHR 0x27] @ ''/data/a'' @ [CHR 0x22] @
    ''b/*.parquet', filename=true,file_row_number=true,union_by_name=true)) ''"
  by (simp add: relation_clause_def)

text \<open>
  C2. A listing of the directories \<open>events\<close> and \<open>users\<close> around a plain file. The tables
  are the two directories, in the order of the listing, and the plain file gives none; but
  the script written to the engine is not the one that declares the relations \<open>events\<close>
  and \<open>users\<close> in a single declaration: the clause of \<open>users\<close> comes as a second \<open>WITH\<close>
  after the comma.
\<close>

theorem queryDuckDB_writes_repeated_WITH:
  "queryDuckDB_tables (entries fresh_remote) = [''events'', ''users''] \<and>
   (WriteString (''INSTALL 'parquet'; LOAD 'parquet'; '' @
      ''\<newline>WITH '' @ [CHR 0x22] @ ''events'' @ [CHR 0x22] @
      '' as (select * from read_parquet('' @ [CHR 0x27] @
      ''/data/events/*.parquet', filename=true,file_row_number=true,union_by_name=true)) '' @
      '','' @
      ''\<newline>WITH '' @ [CHR 0x22] @ ''users'' @ [CHR 0x22] @
      '' as (select * from read_parquet('' @ [CHR 0x27] @
      ''/data/users/*.parquet', filename=true,file_row_number=true,union_by_name=true)) '' @
      '' SELECT * FROM (SELECT 1) ''), Inr [])
     \<in> set (snd (snd (queryDuckDB test_host test_server ''SELECT 1'' (fresh_remote, [])))) \<and>
   (WriteString (''INSTALL 'parquet'; LOAD 'parquet'; '' @
      multi_relation_declaration ''/data'' [''events'', ''users''] @
      '' SELECT * FROM (SELECT 1) ''), Inr [])
     \<notin> set (snd (snd (queryDuckDB test_host test_server ''SELECT 1'' (fresh_remote, []))))"
  by (simp add: run_defs queryDuckDB_tables_def queryDuckDB_sql_def relation_clause_def
      named_relation_def)

section \<open>Sanitation of the user query\<close>

text \<open>
  C4. \<open>QueryJSON\<close> passes the query through \<open>TrimQuery\<close> before the script is built: any
  script written to the engine wraps \<open>TrimQuery query\<close>, nothing else of the query, between
  \<open>SELECT * FROM (\<close> and the closing parenthesis, and that text holds no statement
  terminator \<open>;\<close>. The witness is a query that tries to end the statement and drop a table.
\<close>

theorem QueryJSON_sanitizes_query:
  assumes "QueryJSON h s query (w, []) = (res, (w', tr))"
    and "(WriteString sql, r) \<in> set tr"
  shows "(\<exists>files. (SftpReadDir (Directory s), Inr files) \<in> set tr \<and>
      sql = ''INSTALL 'parquet'; LOAD 'parquet'; '' @
        relation_declaration (Directory s) (queryDuckDB_tables files) @
        '' SELECT * FROM ('' @ TrimQuery query @ '') '') \<and>
    CHR '';'' \<notin> set (TrimQuery query)"
proof -
  have "CHR '';'' \<notin> set (TrimQuery query)"
    by (simp add: TrimQuery_def)
  moreover from assms
  have "\<exists>files. (SftpReadDir (Directory s), Inr files) \<in> set tr \<and>
      sql = queryDuckDB_sql (Directory s) (queryDuckDB_tables files) (TrimQuery query)"
    by (elim QueryJSON_paths openSSHConnection_paths setupDuckDB_paths queryDuckDB_paths
          queryDuckDB_session_paths)
       (auto simp only: set_simps append.simps
        insert_iff empty_iff prod.inject call.inject call.distinct sum.inject sum.distinct
        simp_thms)
  ultimately show ?thesis
    by (simp only: queryDuckDB_sql_declaration simp_thms)
qed

theorem QueryJSON_sanitizes_query_witness:
  "(WriteString (''INSTALL 'parquet'; LOAD 'parquet'; '' @
       relation_declaration ''/data'' [''events'', ''users''] @
       '' SELECT * FROM (SELECT 1 DROP TABLE users) ''), Inr [])
     \<in> set (snd (snd (QueryJSON test_host test_server ''SELECT 1; DROP TABLE users''
           (fresh_remote, [])))) \<and>
   CHR '';'' \<notin> set (TrimQuery ''SELECT 1; DROP TABLE users'')"
proof -
  define R where "R = QueryJSON test_host test_server ''SELECT 1; DROP TABLE users''
    (fresh_remote, [])"
  define sql where "sql = queryDuckDB_sql ''/data'' [''events'', ''users'']
    (TrimQuery ''SELECT 1; DROP TABLE users'')"
  have 1: "QueryJSON test_host test_server ''SELECT 1; DROP TABLE users'' (fresh_remote, []) =
      (fst R, (fst (snd R), snd (snd R)))"
    by (simp add: R_def)
  have 2: "(WriteString sql, Inr []) \<in> set (snd (snd R))"
    by (simp add: R_def sql_def run_defs queryDuckDB_tables_def)
  have q: "TrimQuery ''SELECT 1; DROP TABLE users'' = ''SELECT 1 DROP TABLE users''"
    by (simp add: TrimQuery_def)
  have "sql = ''INSTALL 'parquet'; LOAD 'parquet'; '' @
       relation_declaration ''/data'' [''events'', ''users''] @
       '' SELECT * FROM ('' @ ''SELECT 1 DROP TABLE users'' @ '') ''"
    unfolding sql_def q by (rule queryDuckDB_sql_declaration)
  then have s: "sql = ''INSTALL 'parquet'; LOAD 'parquet'; '' @
       relation_declaration ''/data'' [''events'', ''users''] @
       '' SELECT * FROM (SELECT 1 DROP TABLE users) ''"
    by (simp only: append.simps)
  from QueryJSON_sanitizes_query [OF 1 2] 2 show ?thesis
    unfolding R_def s by (simp only: simp_thms)
qed

section \<open>Release of the connection and of the session\<close>

text \<open>
  On no host and on no path does a request close the client that \<open>Dial\<close> returned; the
  session, once created, is closed last on every path.
\<close>

lemma QueryJSON_never_closes_client:
  assumes "QueryJSON h s query (w, []) = (res, (w', tr))"
  shows "ClientClose \<notin> fst ` set tr"
  using assms
  by (elim QueryJSON_paths openSSHConnection_paths setupDuckDB_paths queryDuckDB_paths
        queryDuckDB_session_paths)
     (simp_all only: set_simps append.simps image_insert image_empty fst_conv
        insert_iff empty_iff call.distinct simp_thms)

lemma QueryJSON_closes_session:
  assumes "QueryJSON h s query (w, []) = (res, (w', tr))"
    and "(NewSession, Inr v) \<in> set tr"
  shows "fst (last tr) = SessionClose"
  using assms
  by (elim QueryJSON_paths openSSHConnection_paths setupDuckDB_paths queryDuckDB_paths
        queryDuckDB_session_paths)
     (simp_all only: set_simps append.simps insert_iff empty_iff prod.inject call.distinct
        sum.distinct simp_thms last.simps list.distinct if_True if_False fst_conv)

text \<open>
  C8. A request that succeeds at every step, on a host without the engine: the connection
  is opened by \<open>Dial\<close>, the session is closed by the deferred \<open>SessionClose\<close>, and the
  request returns without any \<open>ClientClose\<close>: the connection stays open.
\<close>

theorem QueryJSON_leaves_connection_open:
  "fst (QueryJSON test_host test_server ''SELECT 1'' (fresh_remote, [])) = None \<and>
   map fst (snd (snd (QueryJSON test_host test_server ''SELECT 1'' (fresh_remote, [])))) =
     [ParsePrivateKey ''key'', Dial ''tcp'' ''db.example.com:22'' ''scratch'',
      CmdRun ''mkdir -p /data'', CmdRun ''./duckdb'',
      SftpUpload ''pkg/destinations/ssh/duckdb'' ''duckdb'', CmdRun ''chmod 755 duckdb'',
      SftpReadDir ''/data'', NewSession, StdinPipe, SessionStart ''./duckdb --json'',
      WriteString (queryDuckDB_sql ''/data'' [''events'', ''users''] ''SELECT 1''),
      PipeClose, SessionWait, SessionClose] \<and>
   (Dial ''tcp'' ''db.example.com:22'' ''scratch'', Inr []) \<in>
     set (snd (snd (QueryJSON test_host test_server ''SELECT 1'' (fresh_remote, [])))) \<and>
   ClientClose \<notin> fst ` set (snd (snd (QueryJSON test_host test_server ''SELECT 1''
     (fresh_remote, []))))"
  by (simp add: run_defs queryDuckDB_tables_def TrimQuery_def)

section \<open>The paths of an upload\<close>


lemma Upload_paths:
  assumes "Upload env s path (w, tr) = (res, (w', tr'))"
  obtains
    (at_seek) e where
      "res = Some (Errorf ''Storage.Upload: Cannnot get current file position: '' e)"
      "tr' = tr @ [(Seek 0 SeekCurrent, Inl e)]"
  | (stored) p v where "res = None"
      "tr' = tr @ [(Seek 0 SeekCurrent, Inr p), (PutObject (bucket s) path ''attachment'', Inr v)]"
  | (at_put) p e where "aws_code e \<noteq> Some ErrCodeNoSuchBucket"
      "res = Some (Errorf (''Storage.Upload: '' @ path @ '': '') e)"
      "tr' = tr @ [(Seek 0 SeekCurrent, Inr p), (PutObject (bucket s) path ''attachment'', Inl e)]"
  | (at_create) p e e' where "aws_code e = Some ErrCodeNoSuchBucket"
      "res = Some (Errorf (''Storage.Upload: '' @ path @ '': Cannot create bucket: '') e')"
      "tr' = tr @ [(Seek 0 SeekCurrent, Inr p), (PutObject (bucket s) path ''attachment'', Inl e),
                   (CreateBucket (bucket s), Inl e')]"
  | (at_reset) p e v e' where "aws_code e = Some ErrCodeNoSuchBucket"
      "res = Some (Errorf ''Storage.Upload: Cannnot set file position: '' e')"
      "tr' = tr @ [(Seek 0 SeekCurrent, Inr p), (PutObject (bucket s) path ''attachment'', Inl e),
                   (CreateBucket (bucket s), Inr v), (Seek p SeekStart, Inl e')]"
  | (at_retry) p e v v' e' where "aws_code e = Some ErrCodeNoSuchBucket"
      "res = Some (Errorf (''Storage.Upload: '' @ path @ '': '') e')"
      "tr' = tr @ [(Seek 0 SeekCurrent, Inr p), (PutObject (bucket s) path ''attachment'', Inl e),
                   (CreateBucket (bucket s), Inr v), (Seek p SeekStart, Inr v'),
                   (PutObject (bucket s) path ''attachment'', Inl e')]"
  | (retried) p e v v' v'' where "aws_code e = Some ErrCodeNoSuchBucket"
      "res = None"
      "tr' = tr @ [(Seek 0 SeekCurrent, Inr p), (PutObject (bucket s) path ''attachment'', Inl e),
                   (CreateBucket (bucket s), Inr v), (Seek p SeekStart, Inr v'),
                   (PutObject (bucket s) path ''attachment'', Inr v'')]"
proof -
  define put where "put = PutObject (bucket s) path ''attachment''"
  define m1 where "m1 = Errorf ''Storage.Upload: Cannnot get current file position: ''"
  define m2 where "m2 = Errorf (''Storage.Upload: '' @ path @ '': '')"
  define m3 where "m3 = Errorf (''Storage.Upload: '' @ path @ '': Cannot create bucket: '')"
  define m4 where "m4 = Errorf ''Storage.Upload: Cannnot set file position: ''"
  note folds = put_def [symmetric] m1_def [symmetric] m2_def [symmetric] m3_def [symmetric]
    m4_def [symmetric]
  from assms that show thesis
    unfolding Upload_def s3_perform_def folds
    by (auto split: prod.splits sum.splits if_splits)
qed

section \<open>Upload to a bucket that does not exist\<close>

text \<open>
  C9, amended. When the initial put fails with \<open>NoSuchBucket\<close>, \<open>Upload\<close> makes exactly one
  create call; when that call fails, or the seek back to the offset read on entry fails, it
  stops there and returns the wrapped error of that call; otherwise it seeks to the offset
  that the reader had on entry and retries the original put exactly once, returning nil
  exactly when the retry succeeds and the wrapped error of the retry when it fails. Any
  other failure of the initial put is returned, wrapped, with no create call and no retry. The witness is an upload to a store
  without the bucket, from offset 7 of the reader: the stored object was read from offset 7.
\<close>

theorem Upload_retries_after_create:
  assumes "Upload env s path (w, []) = (res, (w', tr))"
    and "take 2 tr = [(Seek 0 SeekCurrent, Inr pos), (PutObject (bucket s) path ''attachment'', Inl e)]"
  shows "(aws_code e = Some ErrCodeNoSuchBucket \<longrightarrow>
      map fst tr =
        (if s3_failed tr (CreateBucket (bucket s)) then
           [Seek 0 SeekCurrent, PutObject (bucket s) path ''attachment'', CreateBucket (bucket s)]
         else if s3_failed tr (Seek pos SeekStart) then
           [Seek 0 SeekCurrent, PutObject (bucket s) path ''attachment'', CreateBucket (bucket s),
            Seek pos SeekStart]
         else
           [Seek 0 SeekCurrent, PutObject (bucket s) path ''attachment'', CreateBucket (bucket s),
            Seek pos SeekStart, PutObject (bucket s) path ''attachment'']) \<and>
      (res = None \<longleftrightarrow> length tr = 5 \<and> \<not> isl (snd (last tr))) \<and>
      (\<forall>e'. (CreateBucket (bucket s), Inl e') \<in> set tr \<longrightarrow>
         res = Some (Errorf (''Storage.Upload: '' @ path @ '': Cannot create bucket: '') e')) \<and>
      (\<forall>e'. (Seek pos SeekStart, Inl e') \<in> set tr \<longrightarrow>
         res = Some (Errorf ''Storage.Upload: Cannnot set file position: '' e')) \<and>
      (\<forall>e'. length tr = 5 \<and> snd (last tr) = Inl e' \<longrightarrow>
         res = Some (Errorf (''Storage.Upload: '' @ path @ '': '') e'))) \<and>
    (aws_code e \<noteq> Some ErrCodeNoSuchBucket \<longrightarrow>
      map fst tr = [Seek 0 SeekCurrent, PutObject (bucket s) path ''attachment''] \<and>
      res = Some (Errorf (''Storage.Upload: '' @ path @ '': '') e))"
  using assms
  by (elim Upload_paths) (auto simp add: s3_failed_def)

lemmas s3_defs = Upload_def s3_perform_def test_storage_def empty_store_def ErrCodeNoSuchBucket_def

text \<open>
  C9, as stated, fails: when the store refuses to create the bucket, the initial put has
  failed with \<open>NoSuchBucket\<close>, one create call follows, and \<open>Upload\<close> returns its error;
  the put is not retried, so the run holds one put and not two.
\<close>

theorem Upload_create_denied_no_retry:
  "snd (snd (Upload test_store test_storage ''data.ndjson''
      (empty_store\<lparr>create_denied := True\<rparr>, []))) =
     [(Seek 0 SeekCurrent, Inr 7),
      (PutObject ''scratch'' ''data.ndjson'' ''attachment'',
       Inl (Aws ''NoSuchBucket'' ''The specified bucket does not exist'')),
      (CreateBucket ''scratch'', Inl (Aws ''AccessDenied'' ''Access Denied''))] \<and>
   aws_code (Aws ''NoSuchBucket'' ''The specified bucket does not exist'') =
     Some ErrCodeNoSuchBucket \<and>
   length (filter (\<lambda>ev. fst ev = PutObject ''scratch'' ''data.ndjson'' ''attachment'')
     (snd (snd (Upload test_store test_storage ''data.ndjson''
        (empty_store\<lparr>create_denied := True\<rparr>, []))))) = 1"
  by (simp add: s3_defs)

theorem Upload_retries_after_create_witness:
  "map fst (snd (snd (Upload test_store test_storage ''data.ndjson'' (empty_store, [])))) =
     [Seek 0 SeekCurrent, PutObject ''scratch'' ''data.ndjson'' ''attachment'',
      CreateBucket ''scratch'', Seek 7 SeekStart,
      PutObject ''scratch'' ''data.ndjson'' ''attachment''] \<and>
   fst (Upload test_store test_storage ''data.ndjson'' (empty_store, [])) = None \<and>
   stored (fst (snd (Upload test_store test_storage ''data.ndjson'' (empty_store, [])))) =
     [(''scratch'', ''data.ndjson'', 7)]"
proof -
  define R where "R = Upload test_store test_storage ''data.ndjson'' (empty_store, [])"
  define e where "e = Aws ''NoSuchBucket'' ''The specified bucket does not exist''"
  have 1: "Upload test_store test_storage ''data.ndjson'' (empty_store, []) =
      (fst R, (fst (snd R), snd (snd R)))"
    by (simp add: R_def)
  have 2: "take 2 (snd (snd R)) = [(Seek 0 SeekCurrent, Inr 7),
      (PutObject (bucket test_storage) ''data.ndjson'' ''attachment'', Inl e)]"
    by (simp add: R_def e_def s3_defs)
  have 3: "aws_code e = Some ErrCodeNoSuchBucket"
    by (simp add: e_def ErrCodeNoSuchBucket_def)
  have 4: "\<not> s3_failed (snd (snd R)) (CreateBucket (bucket test_storage))"
    "\<not> s3_failed (snd (snd R)) (Seek 7 SeekStart)"
    by (simp_all add: R_def s3_defs s3_failed_def)
  have 5: "length (snd (snd R)) = 5" "\<not> isl (snd (last (snd (snd R))))"
    by (simp_all add: R_def s3_defs)
  have 6: "stored (fst (snd R)) = [(''scratch'', ''data.ndjson'', 7)]"
    by (simp add: R_def s3_defs)
  have b: "bucket test_storage = ''scratch''"
    by (simp add: test_storage_def)
  from Upload_retries_after_create [OF 1 2] 3 4 5
  have "map fst (snd (snd R)) =
     [Seek 0 SeekCurrent, PutObject (bucket test_storage) ''data.ndjson'' ''attachment'',
      CreateBucket (bucket test_storage), Seek 7 SeekStart,
      PutObject (bucket test_storage) ''data.ndjson'' ''attachment'']" and "fst R = None"
    by (simp_all only: if_False simp_thms)
  with 6 show ?thesis
    unfolding R_def b by (simp only: simp_thms)
qed

end
